theory Spec2Isabelle
  imports Complex_Main "HOL-Library.Word" "HOL-Library.Log_Nat"
begin

section \<open>The Newton-Raphson solver (SofaCaribou/Ode/NewtonRaphsonSolver.cpp)\<close>

subsection \<open>Collaborators of \<open>NewtonRaphsonSolver::solve\<close>\<close>

text \<open>
  \<open>solve\<close> drives code that lives outside the file: SOFA's vector operations, the linear
  solver behind \<open>l_linear_solver\<close>, the pure virtual assembly methods of the class, the
  steady clock and the arithmetic of \<open>double\<close>. They are parameters of the model. The
  type \<open>'w\<close> is everything they act on: the multi-vectors of the mechanical objects
  (\<open>x\<close>, \<open>v\<close>, \<open>f\<close>, \<open>dx\<close>, \<open>U\<close>) and the system buffers \<open>p_A\<close>, \<open>p_DX\<close>, \<open>p_F\<close>.
  The type \<open>'d\<close> is \<open>double\<close>: \<open>isnan\<close>, \<open><\<close>, \<open>\<le>\<close>, \<open>*\<close>, the literal \<open>0\<close> and the
  macro \<open>EPSILON\<close> (Caribou/config.h) are taken as they come, so that every theorem
  below holds for IEEE-754 arithmetic as for any other reading of them.
\<close>

datatype vec_id = f_id | dx_id | p_U_id

record ('w, 'd) collaborators =
  isnan :: "'d \<Rightarrow> bool"
  less_d :: "'d \<Rightarrow> 'd \<Rightarrow> bool"
  less_eq_d :: "'d \<Rightarrow> 'd \<Rightarrow> bool"
  times_d :: "'d \<Rightarrow> 'd \<Rightarrow> 'd"
  zero_d :: "'d"
  EPSILON :: "'d"
  v_clear :: "vec_id \<Rightarrow> 'w \<Rightarrow> 'w"
  v_realloc :: "vec_id \<Rightarrow> 'w \<Rightarrow> 'w"
  v_peq :: "vec_id \<Rightarrow> vec_id \<Rightarrow> 'w \<Rightarrow> 'w"
  v_dot :: "vec_id \<Rightarrow> vec_id \<Rightarrow> 'w \<Rightarrow> 'd"
  create_system :: "'w \<Rightarrow> 'w"
  assemble_rhs_vector :: "'w \<Rightarrow> 'w"
  dot_F_F :: "'w \<Rightarrow> 'd"
  clear_A :: "'w \<Rightarrow> 'w"
  assemble_system_matrix :: "'w \<Rightarrow> 'w"
  linear_solve :: "'w \<Rightarrow> bool \<times> 'w"
  propagate_position_increment :: "'w \<Rightarrow> 'w"
  clear_F :: "'w \<Rightarrow> 'w"
  steady_clock_now :: "'w \<Rightarrow> int"

subsection \<open>State\<close>

text \<open>
  What \<open>l_linear_solver.get()\<close> points to: nothing, a SOFA linear solver that does not
  implement \<open>SofaCaribou::solver::LinearSolver\<close> (the \<open>dynamic_cast\<close> gives null), or
  one that does.
\<close>

datatype linear_solver_link = nullptr | SofaLinearSolver | CaribouLinearSolver

datatype info_msg =
    Starting
  | AlreadyEquilibrium
  | NewtonIteration "32 word"
  | DIVERGED_nan bool bool bool
  | CONVERGED_correction
  | CONVERGED_residual
  | DIVERGED_max_iterations

text \<open>
  Modelled from the spec: the macro \<open>UNSIGNED_INTEGER_TYPE\<close>, the element type of
  \<open>p_times\<close>, is defined in Caribou/config.h, which is not among the sources; the spec
  gives the iteration times as 64-bit nanosecond counts.
\<close>

type_synonym UNSIGNED_INTEGER_TYPE = "64 word"

text \<open>
  The state \<open>solve\<close> reads and writes: its function-local static flag, the data members
  of the solver, the collaborators' world, and what it emits (\<open>msg_error\<close>, the \<open>info\<close>
  message, the two \<open>AdvancedTimer::valSet\<close> values).
\<close>

record ('w, 'd) state =
  error_message_already_printed :: bool
  d_newton_iterations :: "32 word"
  d_correction_tolerance_threshold :: "'d"
  d_residual_tolerance_threshold :: "'d"
  f_printLog :: bool
  l_linear_solver :: linear_solver_link
  d_converged :: bool
  p_squared_residuals :: "'d list"
  p_times :: "UNSIGNED_INTEGER_TYPE list"
  p_squared_initial_residual :: "'d"
  world :: "'w"
  msg_error :: "string list"
  info :: "info_msg list"
  timer_has_converged :: nat
  timer_nb_iterations :: "32 word"

text \<open>The local variables of \<open>solve\<close> that live across iterations.\<close>

record 'd locals =
  n_it :: "32 word"
  R_squared_norm :: "'d"
  squared_residual_threshold :: "'d"
  squared_correction_threshold :: "'d"
  converged :: bool
  diverged :: bool

subsection \<open>\<open>has_valid_linear_solver\<close>\<close>

definition has_valid_linear_solver :: "('w, 'd) state \<Rightarrow> bool" where
  "has_valid_linear_solver \<sigma> =
     (l_linear_solver \<sigma> \<noteq> nullptr \<and>
      (case l_linear_solver \<sigma> of CaribouLinearSolver \<Rightarrow> True | _ \<Rightarrow> False))"

subsection \<open>One Newton iteration: the body of the \<open>while\<close> loop\<close>

text \<open>Parts 1 and 2: clear and assemble the system matrix, solve for the increment.\<close>

definition solve_increment :: "('w, 'd) collaborators \<Rightarrow> 'w \<Rightarrow> bool \<times> 'w" where
  "solve_increment E w = linear_solve E (assemble_system_matrix E (clear_A E w))"

text \<open>
  Parts 3 to 5: propagate the increment; with more than one Newton iteration configured,
  clear and assemble the force vector again and take its squared norm, otherwise keep
  \<open>R_squared_norm\<close>.
\<close>

definition update_residual ::
  "('w, 'd) collaborators \<Rightarrow> 32 word \<Rightarrow> 'w \<Rightarrow> 'd \<Rightarrow> 'w \<times> 'd" where
  "update_residual E newton_iterations w R =
     (let w3 = propagate_position_increment E w
      in if 1 < newton_iterations
         then (let w4 = assemble_rhs_vector E (clear_F E w3) in (w4, dot_F_F E w4))
         else (w3, R))"

text \<open>Part 6: \<open>U += dx\<close>; the two squared norms are read in the world it leaves.\<close>

definition update_U :: "('w, 'd) collaborators \<Rightarrow> 'w \<Rightarrow> 'w" where
  "update_U E w = v_peq E p_U_id dx_id w"

text \<open>
  The divergence test and Part 8, on the state in which the iteration has been recorded
  and counted. The result's last component tells whether the loop is left by \<open>break\<close>.
\<close>

definition check_convergence ::
  "('w, 'd) collaborators \<Rightarrow> ('w, 'd) state \<Rightarrow> 'd locals \<Rightarrow> 'd \<Rightarrow> 'd \<Rightarrow>
     ('w, 'd) state \<times> 'd locals \<times> bool" where
  "check_convergence E \<sigma> l dx_squared_norm du_squared_norm =
     (let R = R_squared_norm l;
          print_log = f_printLog \<sigma>
      in if isnan E R \<or> isnan E dx_squared_norm \<or> less_d E du_squared_norm (EPSILON E)
         then (\<sigma>\<lparr>info := (if print_log
                            then info \<sigma> @ [DIVERGED_nan (isnan E R) (isnan E dx_squared_norm)
                                              (less_d E du_squared_norm (EPSILON E))]
                            else info \<sigma>)\<rparr>,
               l\<lparr>diverged := True\<rparr>, True)
         else if less_d E (zero_d E) (d_correction_tolerance_threshold \<sigma>) \<and>
                 less_d E dx_squared_norm
                   (times_d E (squared_correction_threshold l) du_squared_norm)
         then (\<sigma>\<lparr>info := (if print_log then info \<sigma> @ [CONVERGED_correction] else info \<sigma>)\<rparr>,
               l\<lparr>converged := True\<rparr>, True)
         else if less_d E (zero_d E) (d_residual_tolerance_threshold \<sigma>) \<and>
                 less_d E R
                   (times_d E (squared_residual_threshold l) (p_squared_residuals \<sigma> ! 0))
         then (\<sigma>\<lparr>info := (if print_log then info \<sigma> @ [CONVERGED_residual] else info \<sigma>)\<rparr>,
               l\<lparr>converged := True\<rparr>, True)
         else (\<sigma>\<lparr>world := v_clear E dx_id (world \<sigma>)\<rparr>, l, False))"

definition newton_iteration ::
  "('w, 'd) collaborators \<Rightarrow> ('w, 'd) state \<Rightarrow> 'd locals \<Rightarrow>
     ('w, 'd) state \<times> 'd locals \<times> bool" where
  "newton_iteration E \<sigma> l =
     (let t = steady_clock_now E (world \<sigma>)
      in case solve_increment E (world \<sigma>) of
           (solved, w2) \<Rightarrow>
             if \<not> solved then (\<sigma>\<lparr>world := w2\<rparr>, l\<lparr>diverged := True\<rparr>, True)
             else (case update_residual E (d_newton_iterations \<sigma>) w2 (R_squared_norm l) of
               (w4, R) \<Rightarrow>
                 let w5 = update_U E w4;
                     dx_squared_norm = v_dot E dx_id dx_id w5;
                     du_squared_norm = v_dot E p_U_id p_U_id w5;
                     iteration_time = steady_clock_now E w5 - t;
                     n = n_it l + 1;
                     \<sigma>' = \<sigma>\<lparr>world := w5,
                             p_times := p_times \<sigma> @ [word_of_int iteration_time],
                             p_squared_residuals := p_squared_residuals \<sigma> @ [R],
                             info := (if f_printLog \<sigma> then info \<sigma> @ [NewtonIteration n]
                                      else info \<sigma>)\<rparr>
                 in check_convergence E \<sigma>' (l\<lparr>R_squared_norm := R, n_it := n\<rparr>)
                      dx_squared_norm du_squared_norm))"

subsection \<open>The loop\<close>

lemma check_convergence_frame:
  "check_convergence E \<sigma> l a b = (\<sigma>', l', brk) \<Longrightarrow>
     d_newton_iterations \<sigma>' = d_newton_iterations \<sigma> \<and> n_it l' = n_it l"
  by (auto simp: check_convergence_def Let_def split: if_splits)

lemma newton_iteration_continues:
  assumes "newton_iteration E \<sigma> l = (\<sigma>', l', False)"
  shows "d_newton_iterations \<sigma>' = d_newton_iterations \<sigma> \<and> n_it l' = n_it l + 1"
  using assms check_convergence_frame
  by (fastforce simp: newton_iteration_def Let_def split: prod.splits if_splits)

lemma unat_count_up:
  fixes n :: "32 word"
  assumes "n < m"
  shows "unat (n + 1) = Suc (unat n)"
proof -
  have "unat n < unat m"
    using assms by (simp add: word_less_nat_alt)
  moreover have "unat m < 2 ^ 32"
    using unsigned_less [of m] by simp
  ultimately have "unat n + 1 < 2 ^ 32"
    by simp
  then show ?thesis
    by (simp add: unat_word_ariths)
qed

text \<open>
  \<open>while (not converged and n_it < newton_iterations) { ... }\<close>, the two \<open>break\<close>
  statements included.
\<close>

function newton_loop ::
  "('w, 'd) collaborators \<Rightarrow> ('w, 'd) state \<Rightarrow> 'd locals \<Rightarrow> ('w, 'd) state \<times> 'd locals" where
  "newton_loop E \<sigma> l =
     (if \<not> converged l \<and> n_it l < d_newton_iterations \<sigma>
      then (case newton_iteration E \<sigma> l of
              (\<sigma>', l', brk) \<Rightarrow> if brk then (\<sigma>', l') else newton_loop E \<sigma>' l')
      else (\<sigma>, l))"
  by pat_completeness auto
termination
proof (relation "measure (\<lambda>(E, \<sigma>, l). unat (d_newton_iterations \<sigma>) - unat (n_it l))")
  show "wf (measure (\<lambda>(E :: ('w, 'd) collaborators, \<sigma> :: ('w, 'd) state, l :: 'd locals).
              unat (d_newton_iterations \<sigma>) - unat (n_it l)))"
    by simp
next
  fix E :: "('w, 'd) collaborators" and \<sigma> \<sigma>' :: "('w, 'd) state" and l l' :: "'d locals"
    and x y brk
  assume guard: "\<not> converged l \<and> n_it l < d_newton_iterations \<sigma>"
    and step: "(\<sigma>', x) = newton_iteration E \<sigma> l" "(l', brk) = x" and "\<not> brk"
  then have "newton_iteration E \<sigma> l = (\<sigma>', l', False)"
    by simp
  then have eq: "d_newton_iterations \<sigma>' = d_newton_iterations \<sigma>" "n_it l' = n_it l + 1"
    using newton_iteration_continues by blast+
  have "unat (n_it l) < unat (d_newton_iterations \<sigma>)"
    using guard by (simp add: word_less_nat_alt)
  moreover have "unat (n_it l + 1) = Suc (unat (n_it l))"
    using guard unat_count_up by blast
  ultimately show "((E, \<sigma>', l'), (E, \<sigma>, l))
      \<in> measure (\<lambda>(E, \<sigma>, l). unat (d_newton_iterations \<sigma>) - unat (n_it l))"
    using eq by simp
qed

declare newton_loop.simps [simp del]

subsection \<open>\<open>solve\<close>\<close>

text \<open>
  From the reset of the static flag to the test of the first residual: the state and
  the locals with which the loop is entered.
\<close>

definition first_residual ::
  "('w, 'd) collaborators \<Rightarrow> ('w, 'd) state \<Rightarrow> ('w, 'd) state \<times> 'd locals" where
  "first_residual E \<sigma> =
     (let correction_tolerance_threshold = d_correction_tolerance_threshold \<sigma>;
          residual_tolerance_threshold = d_residual_tolerance_threshold \<sigma>;
          print_log = f_printLog \<sigma>;
          w1 = v_clear E f_id (world \<sigma>);
          w2 = v_clear E dx_id (v_realloc E dx_id w1);
          w3 = v_clear E p_U_id (v_realloc E p_U_id w2);
          info1 = (if print_log then info \<sigma> @ [Starting] else info \<sigma>);
          w4 = create_system E w3;
          w5 = assemble_rhs_vector E w4;
          R = dot_F_F E w5;
          conv = (less_d E (zero_d E) residual_tolerance_threshold \<and>
                  less_eq_d E R residual_tolerance_threshold)
      in (\<sigma>\<lparr>error_message_already_printed := False,
             p_squared_residuals := [],
             p_times := [],
             world := w5,
             p_squared_initial_residual := R,
             info := (if conv \<and> print_log then info1 @ [AlreadyEquilibrium] else info1)\<rparr>,
          \<lparr>n_it = 0,
           R_squared_norm = R,
           squared_residual_threshold =
             times_d E residual_tolerance_threshold residual_tolerance_threshold,
           squared_correction_threshold =
             times_d E correction_tolerance_threshold correction_tolerance_threshold,
           converged = conv,
           diverged = False\<rparr>))"

text \<open>
  After the loop: \<open>n_it--\<close> on an \<open>unsigned\<close> (it wraps when no iteration completed), the
  report of the exhausted budget, \<open>d_converged\<close>, and the two timer values.
\<close>

definition finish :: "('w, 'd) state \<Rightarrow> 'd locals \<Rightarrow> ('w, 'd) state \<times> 'd locals" where
  "finish \<sigma> l =
     (let n = n_it l - 1
      in (\<sigma>\<lparr>info := (if \<not> converged l \<and> \<not> diverged l \<and> n = d_newton_iterations \<sigma> - 1
                       then (if f_printLog \<sigma> then info \<sigma> @ [DIVERGED_max_iterations]
                             else info \<sigma>)
                       else info \<sigma>),
             d_converged := converged l,
             timer_has_converged := (if converged l then 1 else 0),
             timer_nb_iterations := n + 1\<rparr>,
          l\<lparr>n_it := n\<rparr>))"

text \<open>
  The body of \<open>solve\<close> once the linear solver has been found valid; the result holds the
  locals as they are when \<open>solve\<close> returns.
\<close>

definition newton_raphson ::
  "('w, 'd) collaborators \<Rightarrow> ('w, 'd) state \<Rightarrow> ('w, 'd) state \<times> 'd locals" where
  "newton_raphson E \<sigma> =
     (case first_residual E \<sigma> of (\<sigma>0, l0) \<Rightarrow>
        (case newton_loop E \<sigma>0 l0 of (\<sigma>1, l1) \<Rightarrow> finish \<sigma>1 l1))"

text \<open>The two \<open>msg_error\<close> lines of a call without a valid linear solver.\<close>

definition no_linear_solver_errors :: "string list" where
  "no_linear_solver_errors =
     [''The system will NOT be solved.'',
      ''No compatible linear solver have been set. Use the 'linear_solver' '' @
      ''attribute to specify the path towards a linear solver.'']"

definition solve :: "('w, 'd) collaborators \<Rightarrow> ('w, 'd) state \<Rightarrow> ('w, 'd) state" where
  "solve E \<sigma> =
     (if \<not> has_valid_linear_solver \<sigma>
      then (if \<not> error_message_already_printed \<sigma>
            then \<sigma>\<lparr>msg_error := msg_error \<sigma> @ no_linear_solver_errors,
                    error_message_already_printed := True\<rparr>
            else \<sigma>)
      else fst (newton_raphson E \<sigma>))"

subsection \<open>The invariant of the loop\<close>

text \<open>
  The invariant of the loop: the two histories are as long as the iteration count, the
  count stays within the budget, and the two flags are never both set.
\<close>

definition loop_invariant :: "('w, 'd) state \<Rightarrow> 'd locals \<Rightarrow> bool" where
  "loop_invariant \<sigma> l =
     (length (p_squared_residuals \<sigma>) = unat (n_it l) \<and>
      length (p_times \<sigma>) = unat (n_it l) \<and>
      n_it l \<le> d_newton_iterations \<sigma> \<and>
      \<not> (converged l \<and> diverged l))"

subsection \<open>A scripted environment, to run \<open>solve\<close> on concrete inputs\<close>

text \<open>
  Values of \<open>double\<close> for the examples: not-a-number, or a number that binary64 holds
  exactly. The examples use small integers, halves and quarters only, on which the
  machine's comparison and product are the exact ones.
\<close>

datatype double = NaN | Finite real

fun isnan_double :: "double \<Rightarrow> bool" where
  "isnan_double NaN = True"
| "isnan_double (Finite a) = False"

fun less_double :: "double \<Rightarrow> double \<Rightarrow> bool" where
  "less_double (Finite a) (Finite b) = (a < b)"
| "less_double a b = False"

fun less_eq_double :: "double \<Rightarrow> double \<Rightarrow> bool" where
  "less_eq_double (Finite a) (Finite b) = (a \<le> b)"
| "less_eq_double a b = False"

fun times_double :: "double \<Rightarrow> double \<Rightarrow> double" where
  "times_double (Finite a) (Finite b) = Finite (a * b)"
| "times_double a b = NaN"

text \<open>
  The world of the scripted environment is the list of the collaborator calls made so
  far. What the collaborators answer is read from scripts: \<open>residual k\<close> is the squared
  norm of \<open>p_F\<close> after its \<open>k\<close>-th assembly (the first residual is \<open>residual 1\<close>),
  \<open>solvable k\<close> the answer of the linear solver when \<open>k\<close> solves came before, \<open>dx2 k\<close> and
  \<open>U2 k\<close> the squared norms of \<open>dx\<close> and \<open>U\<close> after the \<open>k\<close>-th propagation. The clock
  advances by one with every call.
\<close>

datatype call =
    Call_v_clear vec_id
  | Call_v_realloc vec_id
  | Call_v_peq vec_id vec_id
  | Call_create_system
  | Call_assemble_rhs_vector
  | Call_clear_A
  | Call_assemble_system_matrix
  | Call_linear_solve
  | Call_propagate_position_increment
  | Call_clear_F

definition scripted ::
  "(nat \<Rightarrow> double) \<Rightarrow> (nat \<Rightarrow> bool) \<Rightarrow> (nat \<Rightarrow> double) \<Rightarrow> (nat \<Rightarrow> double) \<Rightarrow> double \<Rightarrow>
     (call list, double) collaborators" where
  "scripted residual solvable dx2 U2 eps =
     \<lparr>isnan = isnan_double,
      less_d = less_double,
      less_eq_d = less_eq_double,
      times_d = times_double,
      zero_d = Finite 0,
      EPSILON = eps,
      v_clear = (\<lambda>a w. w @ [Call_v_clear a]),
      v_realloc = (\<lambda>a w. w @ [Call_v_realloc a]),
      v_peq = (\<lambda>a b w. w @ [Call_v_peq a b]),
      v_dot = (\<lambda>a b w. if a = dx_id then dx2 (count_list w Call_propagate_position_increment)
                         else U2 (count_list w Call_propagate_position_increment)),
      create_system = (\<lambda>w. w @ [Call_create_system]),
      assemble_rhs_vector = (\<lambda>w. w @ [Call_assemble_rhs_vector]),
      dot_F_F = (\<lambda>w. residual (count_list w Call_assemble_rhs_vector)),
      clear_A = (\<lambda>w. w @ [Call_clear_A]),
      assemble_system_matrix = (\<lambda>w. w @ [Call_assemble_system_matrix]),
      linear_solve = (\<lambda>w. (solvable (count_list w Call_linear_solve), w @ [Call_linear_solve])),
      propagate_position_increment = (\<lambda>w. w @ [Call_propagate_position_increment]),
      clear_F = (\<lambda>w. w @ [Call_clear_F]),
      steady_clock_now = (\<lambda>w. int (length w))\<rparr>"

text \<open>
  A solver as its constructor leaves it (\<open>d_converged\<close> false, empty histories), with the
  given options and link, before any call of \<open>solve\<close>.
\<close>

definition constructed ::
  "32 word \<Rightarrow> double \<Rightarrow> double \<Rightarrow> bool \<Rightarrow> linear_solver_link \<Rightarrow> (call list, double) state" where
  "constructed newton_iterations correction_tolerance residual_tolerance print_log link =
     \<lparr>error_message_already_printed = False,
      d_newton_iterations = newton_iterations,
      d_correction_tolerance_threshold = correction_tolerance,
      d_residual_tolerance_threshold = residual_tolerance,
      f_printLog = print_log,
      l_linear_solver = link,
      d_converged = False,
      p_squared_residuals = [],
      p_times = [],
      p_squared_initial_residual = Finite 0,
      world = [],
      msg_error = [],
      info = [],
      timer_has_converged = 0,
      timer_nb_iterations = 0\<rparr>"

text \<open>Three iterations allowed, the correction criterion disabled, the residual falling.\<close>

definition run_three :: "(call list, double) collaborators" where
  "run_three = scripted (\<lambda>k. if k = 1 then Finite 100 else if k = 2 then Finite 64 else Finite 4)
               (\<lambda>k. True) (\<lambda>k. Finite 1) (\<lambda>k. Finite 1) (Finite (1 / 1024))"

text \<open>Two iterations allowed, both criteria disabled: the budget runs out.\<close>

definition run_out :: "(call list, double) collaborators" where
  "run_out = scripted (\<lambda>k. Finite 4) (\<lambda>k. True) (\<lambda>k. Finite 1) (\<lambda>k. Finite 1)
               (Finite (1 / 1024))"

text \<open>
  The total displacement stays under \<open>EPSILON\<close> while both convergence criteria would
  hold.
\<close>

definition underflow :: "(call list, double) collaborators" where
  "underflow = scripted (\<lambda>k. if k = 1 then Finite 4 else Finite 1) (\<lambda>k. True)
                 (\<lambda>k. Finite 0) (\<lambda>k. Finite (1 / 2048)) (Finite (1 / 1024))"

text \<open>A linear solver that fails on every call.\<close>

definition failing_solver :: "(call list, double) collaborators" where
  "failing_solver = scripted (\<lambda>k. Finite 4) (\<lambda>k. False) (\<lambda>k. Finite 1) (\<lambda>k. Finite 1)
                      (Finite (1 / 1024))"

text \<open>A first residual of squared norm 3, for a residual tolerance of 2.\<close>

definition above_unit_tolerance :: "(call list, double) collaborators" where
  "above_unit_tolerance = scripted (\<lambda>k. Finite 3) (\<lambda>k. True) (\<lambda>k. Finite 1) (\<lambda>k. Finite 1)
                            (Finite (1 / 1024))"

text \<open>A squared residual of 100 at first, of 1 after every iteration.\<close>

definition residual_drop :: "(call list, double) collaborators" where
  "residual_drop = scripted (\<lambda>k. if k = 1 then Finite 100 else Finite 1) (\<lambda>k. True)
                     (\<lambda>k. Finite 1) (\<lambda>k. Finite 1) (Finite (1 / 1024))"

section \<open>The rectangular hexahedron (Caribou/Geometry/RectangularHexahedron.h)\<close>

text \<open>
  \<open>WorldCoordinates\<close>, \<open>LocalCoordinates\<close> and \<open>Size\<close> are Eigen vectors of three
  \<open>FLOATING_POINT_TYPE\<close>, \<open>Mat33\<close> a three by three matrix, here as its three rows. The
  macro \<open>FLOATING_POINT_TYPE\<close> (Caribou/config.h) and the Eigen operations on these types
  are not among the sources: the scalar type is the parameter \<open>'a\<close>, and the operations
  that do arithmetic, with whatever rounding and order of evaluation they have, are the
  parameters below. Transposition moves entries and computes nothing.
\<close>

type_synonym 'a Vector3 = "'a \<times> 'a \<times> 'a"

type_synonym 'a Mat33 = "'a Vector3 \<times> 'a Vector3 \<times> 'a Vector3"

record 'a eigen =
  plus_v :: "'a Vector3 \<Rightarrow> 'a Vector3 \<Rightarrow> 'a Vector3"
  minus_v :: "'a Vector3 \<Rightarrow> 'a Vector3 \<Rightarrow> 'a Vector3"
  array_times :: "'a Vector3 \<Rightarrow> 'a Vector3 \<Rightarrow> 'a Vector3"
  array_divide :: "'a Vector3 \<Rightarrow> 'a Vector3 \<Rightarrow> 'a Vector3"
  divide_scalar :: "'a Vector3 \<Rightarrow> 'a \<Rightarrow> 'a Vector3"
  two :: "'a"
  times_mv :: "'a Mat33 \<Rightarrow> 'a Vector3 \<Rightarrow> 'a Vector3"

record 'a RectangularHexahedron =
  p_center :: "'a Vector3"
  p_H :: "'a Vector3"
  p_R :: "'a Mat33"

fun transpose33 :: "'a Mat33 \<Rightarrow> 'a Mat33" where
  "transpose33 ((a11, a12, a13), (a21, a22, a23), (a31, a32, a33)) =
     ((a11, a21, a31), (a12, a22, a32), (a13, a23, a33))"

text \<open>
  \<open>T\<close>: \<open>p_center + ((p_R * coordinates).array() * (p_H/2.).array()).matrix()\<close>, and
  \<open>Tinv\<close>: \<open>p_R.transpose() * ((coordinates - p_center).array() / (p_H/2.).array()).matrix()\<close>.
\<close>

definition T :: "'a eigen \<Rightarrow> 'a RectangularHexahedron \<Rightarrow> 'a Vector3 \<Rightarrow> 'a Vector3" where
  "T E h coordinates =
     plus_v E (p_center h)
       (array_times E (times_mv E (p_R h) coordinates) (divide_scalar E (p_H h) (two E)))"

definition Tinv :: "'a eigen \<Rightarrow> 'a RectangularHexahedron \<Rightarrow> 'a Vector3 \<Rightarrow> 'a Vector3" where
  "Tinv E h coordinates =
     times_mv E (transpose33 (p_R h))
       (array_divide E (minus_v E coordinates (p_center h)) (divide_scalar E (p_H h) (two E)))"

subsection \<open>The numbers the scalars stand for\<close>

text \<open>
  The same operations on real numbers, without rounding: what each Eigen operation
  computes when its result is exact.
\<close>

fun real_plus :: "real Vector3 \<Rightarrow> real Vector3 \<Rightarrow> real Vector3" where
  "real_plus (a1, a2, a3) (b1, b2, b3) = (a1 + b1, a2 + b2, a3 + b3)"

fun real_minus :: "real Vector3 \<Rightarrow> real Vector3 \<Rightarrow> real Vector3" where
  "real_minus (a1, a2, a3) (b1, b2, b3) = (a1 - b1, a2 - b2, a3 - b3)"

fun real_array_times :: "real Vector3 \<Rightarrow> real Vector3 \<Rightarrow> real Vector3" where
  "real_array_times (a1, a2, a3) (b1, b2, b3) = (a1 * b1, a2 * b2, a3 * b3)"

fun real_array_divide :: "real Vector3 \<Rightarrow> real Vector3 \<Rightarrow> real Vector3" where
  "real_array_divide (a1, a2, a3) (b1, b2, b3) = (a1 / b1, a2 / b2, a3 / b3)"

fun real_divide_scalar :: "real Vector3 \<Rightarrow> real \<Rightarrow> real Vector3" where
  "real_divide_scalar (a1, a2, a3) s = (a1 / s, a2 / s, a3 / s)"

fun dot3 :: "real Vector3 \<Rightarrow> real Vector3 \<Rightarrow> real" where
  "dot3 (a1, a2, a3) (b1, b2, b3) = a1 * b1 + a2 * b2 + a3 * b3"

fun real_times_mv :: "real Mat33 \<Rightarrow> real Vector3 \<Rightarrow> real Vector3" where
  "real_times_mv (r1, r2, r3) x = (dot3 r1 x, dot3 r2 x, dot3 r3 x)"

fun real_times_mm :: "real Mat33 \<Rightarrow> real Mat33 \<Rightarrow> real Mat33" where
  "real_times_mm (r1, r2, r3) B =
     (case transpose33 B of (c1, c2, c3) \<Rightarrow>
        ((dot3 r1 c1, dot3 r1 c2, dot3 r1 c3),
         (dot3 r2 c1, dot3 r2 c2, dot3 r2 c3),
         (dot3 r3 c1, dot3 r3 c2, dot3 r3 c3)))"

definition Identity33 :: "real Mat33" where
  "Identity33 = ((1, 0, 0), (0, 1, 0), (0, 0, 1))"

text \<open>
  \<open>val\<close> gives the number a scalar stands for; \<open>vals\<close> and \<open>vals33\<close> apply it to the
  entries of a vector and of a matrix.
\<close>

fun vals :: "('a \<Rightarrow> real) \<Rightarrow> 'a Vector3 \<Rightarrow> real Vector3" where
  "vals val (a1, a2, a3) = (val a1, val a2, val a3)"

fun vals33 :: "('a \<Rightarrow> real) \<Rightarrow> 'a Mat33 \<Rightarrow> real Mat33" where
  "vals33 val (r1, r2, r3) = (vals val r1, vals val r2, vals val r3)"

text \<open>
  No operation of \<open>T\<close> at \<open>coordinates\<close> rounds: the product with the rotation, the
  halving of the size, the scaling and the translation each give the exact result.
\<close>

definition T_exact ::
  "('a \<Rightarrow> real) \<Rightarrow> 'a eigen \<Rightarrow> 'a RectangularHexahedron \<Rightarrow> 'a Vector3 \<Rightarrow> bool" where
  "T_exact val E h coordinates =
     (let rotated = times_mv E (p_R h) coordinates;
          half = divide_scalar E (p_H h) (two E);
          scaled = array_times E rotated half
      in vals val rotated = real_times_mv (vals33 val (p_R h)) (vals val coordinates) \<and>
         vals val half = real_divide_scalar (vals val (p_H h)) 2 \<and>
         vals val scaled = real_array_times (vals val rotated) (vals val half) \<and>
         vals val (plus_v E (p_center h) scaled) =
           real_plus (vals val (p_center h)) (vals val scaled))"

text \<open>The same for \<open>Tinv\<close>: the translation back, the halving, the quotient and the product.\<close>

definition Tinv_exact ::
  "('a \<Rightarrow> real) \<Rightarrow> 'a eigen \<Rightarrow> 'a RectangularHexahedron \<Rightarrow> 'a Vector3 \<Rightarrow> bool" where
  "Tinv_exact val E h coordinates =
     (let moved = minus_v E coordinates (p_center h);
          half = divide_scalar E (p_H h) (two E);
          scaled = array_divide E moved half
      in vals val moved = real_minus (vals val coordinates) (vals val (p_center h)) \<and>
         vals val half = real_divide_scalar (vals val (p_H h)) 2 \<and>
         vals val scaled = real_array_divide (vals val moved) (vals val half) \<and>
         vals val (times_mv E (transpose33 (p_R h)) scaled) =
           real_times_mv (vals33 val (transpose33 (p_R h))) (vals val scaled))"

subsection \<open>Rounded arithmetic, to run \<open>T\<close> and \<open>Tinv\<close> on concrete inputs\<close>

text \<open>
  Rounding to the nearest number with \<open>p\<close> significant bits, ties to even, with the
  least exponent \<open>emin\<close> of a normal number: binary64 is \<open>p = 53\<close>, \<open>emin = - 1022\<close>, binary32
  is \<open>p = 24\<close>, \<open>emin = - 126\<close>. Scalars are the numbers themselves. Overflow, division
  by zero, infinities and NaN are not part of it: the examples stay far from them.
\<close>

definition pow2 :: "int \<Rightarrow> real" where
  "pow2 e = (if 0 \<le> e then 2 ^ nat e else 1 / 2 ^ nat (- e))"

definition exponent :: "real \<Rightarrow> int" where
  "exponent x =
     (if 1 \<le> \<bar>x\<bar> then bitlen \<lfloor>\<bar>x\<bar>\<rfloor> - 1 else - bitlen (\<lceil>1 / \<bar>x\<bar>\<rceil> - 1))"

definition round_half_even :: "real \<Rightarrow> int" where
  "round_half_even q =
     (let f = \<lfloor>q\<rfloor>; r = q - of_int f
      in if r < 1 / 2 then f else if 1 / 2 < r then f + 1 else if even f then f else f + 1)"

definition round_fp :: "nat \<Rightarrow> int \<Rightarrow> real \<Rightarrow> real" where
  "round_fp p emin x =
     (if x = 0 then 0
      else (let ulp = pow2 (max (exponent x) emin - (int p - 1))
            in of_int (round_half_even (x / ulp)) * ulp))"

text \<open>
  Every operation gives the rounded exact result; the matrix-vector product rounds each
  product and each sum, summing in the order of the columns.
\<close>

definition rounded :: "nat \<Rightarrow> int \<Rightarrow> real eigen" where
  "rounded p emin =
     \<lparr>plus_v = (\<lambda>(a1, a2, a3) (b1, b2, b3).
         (round_fp p emin (a1 + b1), round_fp p emin (a2 + b2), round_fp p emin (a3 + b3))),
      minus_v = (\<lambda>(a1, a2, a3) (b1, b2, b3).
         (round_fp p emin (a1 - b1), round_fp p emin (a2 - b2), round_fp p emin (a3 - b3))),
      array_times = (\<lambda>(a1, a2, a3) (b1, b2, b3).
         (round_fp p emin (a1 * b1), round_fp p emin (a2 * b2), round_fp p emin (a3 * b3))),
      array_divide = (\<lambda>(a1, a2, a3) (b1, b2, b3).
         (round_fp p emin (a1 / b1), round_fp p emin (a2 / b2), round_fp p emin (a3 / b3))),
      divide_scalar = (\<lambda>(a1, a2, a3) s.
         (round_fp p emin (a1 / s), round_fp p emin (a2 / s), round_fp p emin (a3 / s))),
      two = 2,
      times_mv = (\<lambda>(r1, r2, r3) x.
         (let dot = (\<lambda>(a1, a2, a3) (b1, b2, b3).
                round_fp p emin
                  (round_fp p emin (round_fp p emin (a1 * b1) + round_fp p emin (a2 * b2)) +
                   round_fp p emin (a3 * b3)))
          in (dot r1 x, dot r2 x, dot r3 x)))\<rparr>"

abbreviation binary64 :: "real eigen" where
  "binary64 \<equiv> rounded 53 (- 1022)"

abbreviation binary32 :: "real eigen" where
  "binary32 \<equiv> rounded 24 (- 126)"

text \<open>The cube of side 2 centred at (1, 0, 0), not rotated.\<close>

definition shifted_cube :: "real RectangularHexahedron" where
  "shifted_cube = \<lparr>p_center = (1, 0, 0), p_H = (2, 2, 2), p_R = ((1, 0, 0), (0, 1, 0), (0, 0, 1))\<rparr>"

text \<open>A hexahedron turned by a quarter about the third axis, of size 2 by 4 by 8.\<close>

definition quarter_turn :: "real RectangularHexahedron" where
  "quarter_turn =
     \<lparr>p_center = (1, 2, 3), p_H = (2, 4, 8), p_R = ((0, - 1, 0), (1, 0, 0), (0, 0, 1))\<rparr>"

section \<open>The grid (Caribou/Topology/Engine/Grid/Grid.h)\<close>

datatype failure = out_of_range | undefined_behaviour

text \<open>
  The members of \<open>Grid<TCell>\<close>. \<open>VecInt\<close> and \<open>VecFloat\<close> are vectors of \<open>Dimension\<close>
  entries; the cell type is a parameter, as in the template.
\<close>

record 'cell Grid =
  m_anchor :: "real list"
  m_number_of_subdivisions :: "int list"
  m_dimensions :: "real list"
  m_cells :: "'cell list"
  m_number_of_cells_per_level :: "int list"

text \<open>
  The non-const \<open>get\<close>: \<open>return m_cells[cell_index(grid_coordinates)];\<close>. The virtual
  \<open>cell_index\<close> is declared in the header and defined elsewhere; it is a parameter, which
  answers with an index or throws \<open>std::out_of_range\<close>. \<open>operator[]\<close> of \<open>std::vector\<close>
  beyond the size is undefined behaviour.
\<close>

definition get ::
  "('cell Grid \<Rightarrow> int list \<Rightarrow> failure + nat) \<Rightarrow> 'cell Grid \<Rightarrow> int list \<Rightarrow> failure + 'cell" where
  "get cell_index g grid_coordinates =
     (case cell_index g grid_coordinates of
        Inl e \<Rightarrow> Inl e
      | Inr i \<Rightarrow> if i < length (m_cells g) then Inr (m_cells g ! i) else Inl undefined_behaviour)"

text \<open>
  The const \<open>get\<close>: \<open>return get(grid_coordinates);\<close>. Inside a const member function
  \<open>this\<close> points to a const \<open>Grid\<close>, on which only the const overload can be called: the
  call is to the function itself. \<open>None\<close> is the call that does not return.
\<close>

partial_function (option) get_const ::
  "('cell Grid \<Rightarrow> int list \<Rightarrow> failure + nat) \<Rightarrow> 'cell Grid \<Rightarrow> int list \<Rightarrow>
     (failure + 'cell) option" where
  "get_const cell_index g grid_coordinates = get_const cell_index g grid_coordinates"

text \<open>A grid of one cell, and the \<open>cell_index\<close> that goes with it.\<close>

definition one_cell :: "nat Grid" where
  "one_cell =
     \<lparr>m_anchor = [0, 0, 0], m_number_of_subdivisions = [1, 1, 1], m_dimensions = [1, 1, 1],
      m_cells = [7], m_number_of_cells_per_level = [1]\<rparr>"

definition one_cell_index :: "nat Grid \<Rightarrow> int list \<Rightarrow> failure + nat" where
  "one_cell_index g grid_coordinates =
     (if grid_coordinates = [0, 0, 0] then Inr 0 else Inl out_of_range)"

section \<open>Properties of the solver\<close>

subsection \<open>What one iteration and the loop preserve\<close>

lemma check_convergence_cases:
  assumes "check_convergence E \<sigma> l a b = (\<sigma>', l', brk)"
  shows "d_newton_iterations \<sigma>' = d_newton_iterations \<sigma> \<and> f_printLog \<sigma>' = f_printLog \<sigma> \<and>
         p_times \<sigma>' = p_times \<sigma> \<and> p_squared_residuals \<sigma>' = p_squared_residuals \<sigma> \<and>
         (brk \<and> l' = l\<lparr>diverged := True\<rparr> \<or> brk \<and> l' = l\<lparr>converged := True\<rparr> \<or>
          \<not> brk \<and> l' = l)"
  using assms by (auto simp: check_convergence_def Let_def split: if_splits)

lemma newton_iteration_cases:
  assumes "newton_iteration E \<sigma> l = (\<sigma>', l', brk)"
  shows "d_newton_iterations \<sigma>' = d_newton_iterations \<sigma> \<and> f_printLog \<sigma>' = f_printLog \<sigma> \<and>
         (brk \<and> l' = l\<lparr>diverged := True\<rparr> \<and>
            p_times \<sigma>' = p_times \<sigma> \<and> p_squared_residuals \<sigma>' = p_squared_residuals \<sigma> \<or>
          n_it l' = n_it l + 1 \<and>
            length (p_times \<sigma>') = Suc (length (p_times \<sigma>)) \<and>
            length (p_squared_residuals \<sigma>') = Suc (length (p_squared_residuals \<sigma>)) \<and>
            (brk \<and> diverged l' \<and> converged l' = converged l \<or>
             brk \<and> converged l' \<and> diverged l' = diverged l \<or>
             \<not> brk \<and> converged l' = converged l \<and> diverged l' = diverged l))"
proof (cases "solve_increment E (world \<sigma>)")
  case (Pair solved w2)
  show ?thesis
  proof (cases solved)
    case False
    with Pair assms show ?thesis
      by (auto simp: newton_iteration_def Let_def)
  next
    case True
    obtain w4 R where u: "update_residual E (d_newton_iterations \<sigma>) w2 (R_squared_norm l) = (w4, R)"
      by (cases "update_residual E (d_newton_iterations \<sigma>) w2 (R_squared_norm l)")
    define \<sigma>2 where "\<sigma>2 = \<sigma>\<lparr>world := update_U E w4,
        p_times := p_times \<sigma> @ [word_of_int (steady_clock_now E (update_U E w4) -
                                              steady_clock_now E (world \<sigma>))],
        p_squared_residuals := p_squared_residuals \<sigma> @ [R],
        info := (if f_printLog \<sigma> then info \<sigma> @ [NewtonIteration (n_it l + 1)] else info \<sigma>)\<rparr>"
    define l2 where "l2 = l\<lparr>R_squared_norm := R, n_it := n_it l + 1\<rparr>"
    have "check_convergence E \<sigma>2 l2 (v_dot E dx_id dx_id (update_U E w4))
            (v_dot E p_U_id p_U_id (update_U E w4)) = (\<sigma>', l', brk)"
      using assms Pair True u by (simp add: newton_iteration_def Let_def \<sigma>2_def l2_def)
    from check_convergence_cases [OF this] show ?thesis
      by (auto simp: \<sigma>2_def l2_def)
  qed
qed

lemma newton_loop_invariant:
  assumes "loop_invariant \<sigma> l" and "\<not> diverged l"
      and "newton_loop E \<sigma> l = (\<sigma>', l')"
  shows "loop_invariant \<sigma>' l' \<and> d_newton_iterations \<sigma>' = d_newton_iterations \<sigma> \<and>
         f_printLog \<sigma>' = f_printLog \<sigma> \<and>
         (converged l' \<or> diverged l' \<or> n_it l' = d_newton_iterations \<sigma>)"
  using assms
proof (induction E \<sigma> l rule: newton_loop.induct)
  case (1 E \<sigma> l)
  show ?case
  proof (cases "\<not> converged l \<and> n_it l < d_newton_iterations \<sigma>")
    case False
    with "1.prems" have "\<sigma>' = \<sigma>" "l' = l"
      by (simp_all add: newton_loop.simps [of E \<sigma> l])
    moreover have "converged l \<or> n_it l = d_newton_iterations \<sigma>"
      using False "1.prems"(1) by (auto simp: loop_invariant_def)
    ultimately show ?thesis
      using "1.prems"(1) by auto
  next
    case guard: True
    obtain \<sigma>1 l1 brk where it: "newton_iteration E \<sigma> l = (\<sigma>1, l1, brk)"
      by (cases "newton_iteration E \<sigma> l") auto
    note c = newton_iteration_cases [OF it]
    have suc: "unat (n_it l + 1) = Suc (unat (n_it l))"
      using guard unat_count_up by blast
    have le: "n_it l + 1 \<le> d_newton_iterations \<sigma>"
      using guard by (simp add: inc_le)
    have inv1: "loop_invariant \<sigma>1 l1"
      using c "1.prems"(1,2) guard suc le by (auto simp: loop_invariant_def)
    show ?thesis
    proof (cases brk)
      case True
      with it guard "1.prems"(3) have "\<sigma>' = \<sigma>1" "l' = l1"
        by (simp_all add: newton_loop.simps [of E \<sigma> l])
      moreover have "converged l1 \<or> diverged l1"
        using c True by auto
      ultimately show ?thesis
        using inv1 c by auto
    next
      case False
      with it guard "1.prems"(3) have run: "newton_loop E \<sigma>1 l1 = (\<sigma>', l')"
        by (simp add: newton_loop.simps [of E \<sigma> l])
      have nd: "\<not> diverged l1"
        using c False "1.prems"(2) by auto
      have "loop_invariant \<sigma>' l' \<and> d_newton_iterations \<sigma>' = d_newton_iterations \<sigma>1 \<and>
            f_printLog \<sigma>' = f_printLog \<sigma>1 \<and>
            (converged l' \<or> diverged l' \<or> n_it l' = d_newton_iterations \<sigma>1)"
        using "1.IH" [OF guard it [symmetric] refl False inv1 nd run] .
      then show ?thesis
        using c by simp
    qed
  qed
qed

lemma first_residual_entry:
  assumes "first_residual E \<sigma> = (\<sigma>0, l0)"
  shows "loop_invariant \<sigma>0 l0 \<and> \<not> diverged l0 \<and> n_it l0 = 0 \<and>
         d_newton_iterations \<sigma>0 = d_newton_iterations \<sigma> \<and> f_printLog \<sigma>0 = f_printLog \<sigma> \<and>
         p_squared_residuals \<sigma>0 = [] \<and> p_times \<sigma>0 = []"
  using assms by (auto simp: first_residual_def loop_invariant_def Let_def)

lemma finish_fields:
  "finish \<sigma> l = (\<sigma>', l') \<Longrightarrow>
     p_squared_residuals \<sigma>' = p_squared_residuals \<sigma> \<and> p_times \<sigma>' = p_times \<sigma> \<and>
     world \<sigma>' = world \<sigma> \<and>
     d_newton_iterations \<sigma>' = d_newton_iterations \<sigma> \<and>
     timer_nb_iterations \<sigma>' = n_it l \<and> d_converged \<sigma>' = converged l \<and>
     converged l' = converged l \<and> diverged l' = diverged l \<and> n_it l' = n_it l - 1"
  by (auto simp: finish_def Let_def)

subsection \<open>The histories and the iteration count\<close>

text \<open>
  Claim C5. After every call of \<open>solve\<close> with a valid linear solver attached, the
  history of squared residuals and the history of iteration times have the same length,
  that length is the number of completed Newton iterations (the value \<open>solve\<close> hands to
  the timer as \<open>nb_iterations\<close>), and it never exceeds \<open>newton_iterations\<close>.
\<close>

theorem telemetry_lengths:
  assumes "has_valid_linear_solver \<sigma>"
  shows "length (p_squared_residuals (solve E \<sigma>)) = length (p_times (solve E \<sigma>)) \<and>
         length (p_times (solve E \<sigma>)) = unat (timer_nb_iterations (solve E \<sigma>)) \<and>
         timer_nb_iterations (solve E \<sigma>) \<le> d_newton_iterations \<sigma>"
proof -
  obtain \<sigma>0 l0 where f: "first_residual E \<sigma> = (\<sigma>0, l0)"
    by (cases "first_residual E \<sigma>")
  obtain \<sigma>1 l1 where n: "newton_loop E \<sigma>0 l0 = (\<sigma>1, l1)"
    by (cases "newton_loop E \<sigma>0 l0")
  obtain \<sigma>2 l2 where e: "finish \<sigma>1 l1 = (\<sigma>2, l2)"
    by (cases "finish \<sigma>1 l1")
  have s: "solve E \<sigma> = \<sigma>2"
    using assms f n e by (simp add: solve_def newton_raphson_def)
  note a = first_residual_entry [OF f]
  from a have "loop_invariant \<sigma>0 l0" "\<not> diverged l0"
    by simp_all
  from newton_loop_invariant [OF this n] a
  have "loop_invariant \<sigma>1 l1" "d_newton_iterations \<sigma>1 = d_newton_iterations \<sigma>"
    by simp_all
  then show ?thesis
    using finish_fields [OF e] by (simp add: s loop_invariant_def)
qed

theorem telemetry_lengths_witness:
  "has_valid_linear_solver (constructed 3 (Finite (- 1)) (Finite (1 / 2)) False CaribouLinearSolver) \<and>
   p_squared_residuals
     (solve run_three (constructed 3 (Finite (- 1)) (Finite (1 / 2)) False CaribouLinearSolver))
     = [Finite 64, Finite 4] \<and>
   length (p_times
     (solve run_three (constructed 3 (Finite (- 1)) (Finite (1 / 2)) False CaribouLinearSolver))) = 2 \<and>
   unat (timer_nb_iterations
     (solve run_three (constructed 3 (Finite (- 1)) (Finite (1 / 2)) False CaribouLinearSolver))) = 2"
proof -
  let ?s = "constructed 3 (Finite (- 1)) (Finite (1 / 2)) False CaribouLinearSolver"
  have v: "has_valid_linear_solver ?s"
    by (simp add: has_valid_linear_solver_def constructed_def)
  have r: "p_squared_residuals (solve run_three ?s) = [Finite 64, Finite 4]"
    by code_simp
  then have "length (p_squared_residuals (solve run_three ?s)) = 2"
    by simp
  with telemetry_lengths [OF v, of run_three] v r show ?thesis
    by simp
qed

subsection \<open>How \<open>solve\<close> ends\<close>

text \<open>
  Claim C6. When \<open>solve\<close> returns after a call with a valid linear solver, exactly one of
  three things holds of its locals: \<open>converged\<close> is set, \<open>diverged\<close> is set, or neither is
  and the iteration count has reached \<open>newton_iterations\<close>. In the last case the test
  \<open>n_it == newton_iterations - 1\<close> after \<open>n_it--\<close> holds, \<open>solve\<close> still returns, with
  \<open>d_converged\<close> false, and with \<open>printLog\<close> the last line of the log reports the exhausted
  budget.
\<close>

theorem exactly_one_outcome:
  assumes "has_valid_linear_solver \<sigma>" and "newton_raphson E \<sigma> = (\<sigma>', l')"
  shows "solve E \<sigma> = \<sigma>' \<and> d_converged \<sigma>' = converged l' \<and>
         (converged l' \<and> \<not> diverged l' \<and> timer_nb_iterations \<sigma>' \<le> d_newton_iterations \<sigma> \<or>
          diverged l' \<and> \<not> converged l' \<and> timer_nb_iterations \<sigma>' \<le> d_newton_iterations \<sigma> \<or>
          \<not> converged l' \<and> \<not> diverged l' \<and> timer_nb_iterations \<sigma>' = d_newton_iterations \<sigma> \<and>
            n_it l' = d_newton_iterations \<sigma> - 1 \<and>
            (f_printLog \<sigma> \<longrightarrow> (\<exists>ms. info \<sigma>' = ms @ [DIVERGED_max_iterations])))"
proof -
  obtain \<sigma>0 l0 where f: "first_residual E \<sigma> = (\<sigma>0, l0)"
    by (cases "first_residual E \<sigma>")
  obtain \<sigma>1 l1 where n: "newton_loop E \<sigma>0 l0 = (\<sigma>1, l1)"
    by (cases "newton_loop E \<sigma>0 l0")
  have e: "finish \<sigma>1 l1 = (\<sigma>', l')"
    using assms(2) f n by (simp add: newton_raphson_def)
  have s: "solve E \<sigma> = \<sigma>'"
    using assms by (simp add: solve_def)
  note a = first_residual_entry [OF f]
  from a have "loop_invariant \<sigma>0 l0" "\<not> diverged l0"
    by simp_all
  from newton_loop_invariant [OF this n] a
  have inv: "loop_invariant \<sigma>1 l1" and N: "d_newton_iterations \<sigma>1 = d_newton_iterations \<sigma>"
    and pl: "f_printLog \<sigma>1 = f_printLog \<sigma>"
    and out: "converged l1 \<or> diverged l1 \<or> n_it l1 = d_newton_iterations \<sigma>"
    by simp_all
  note ff = finish_fields [OF e]
  have le: "timer_nb_iterations \<sigma>' \<le> d_newton_iterations \<sigma>"
    using inv ff N by (simp add: loop_invariant_def)
  have excl: "\<not> (converged l' \<and> diverged l')"
    using inv ff by (simp add: loop_invariant_def)
  have lim: "\<exists>ms. info \<sigma>' = ms @ [DIVERGED_max_iterations]"
    if "\<not> converged l'" "\<not> diverged l'" "f_printLog \<sigma>"
  proof -
    have "n_it l1 = d_newton_iterations \<sigma>1"
      using that out ff N by simp
    then have "info \<sigma>' = info \<sigma>1 @ [DIVERGED_max_iterations]"
      using e that ff pl by (auto simp: finish_def Let_def)
    then show ?thesis
      by blast
  qed
  show ?thesis
    using s ff le excl out lim by auto
qed

theorem exactly_one_outcome_witness:
  "has_valid_linear_solver (constructed 2 (Finite (- 1)) (Finite (- 1)) True CaribouLinearSolver) \<and>
   newton_raphson run_out (constructed 2 (Finite (- 1)) (Finite (- 1)) True CaribouLinearSolver) =
     (solve run_out (constructed 2 (Finite (- 1)) (Finite (- 1)) True CaribouLinearSolver),
      \<lparr>n_it = 1, R_squared_norm = Finite 4, squared_residual_threshold = Finite 1,
       squared_correction_threshold = Finite 1, converged = False, diverged = False\<rparr>) \<and>
   \<not> d_converged (solve run_out (constructed 2 (Finite (- 1)) (Finite (- 1)) True CaribouLinearSolver)) \<and>
   timer_nb_iterations
     (solve run_out (constructed 2 (Finite (- 1)) (Finite (- 1)) True CaribouLinearSolver)) = 2 \<and>
   info (solve run_out (constructed 2 (Finite (- 1)) (Finite (- 1)) True CaribouLinearSolver)) =
     [Starting, NewtonIteration 1, NewtonIteration 2, DIVERGED_max_iterations]"
proof -
  let ?s = "constructed 2 (Finite (- 1)) (Finite (- 1)) True CaribouLinearSolver"
  let ?l = "\<lparr>n_it = 1, R_squared_norm = Finite 4, squared_residual_threshold = Finite 1,
       squared_correction_threshold = Finite 1, converged = False, diverged = False\<rparr>"
  have v: "has_valid_linear_solver ?s"
    by (simp add: has_valid_linear_solver_def constructed_def)
  have r: "newton_raphson run_out ?s = (solve run_out ?s, ?l)"
    by code_simp
  have i: "info (solve run_out ?s) =
      [Starting, NewtonIteration 1, NewtonIteration 2, DIVERGED_max_iterations]"
    by code_simp
  have d: "d_newton_iterations ?s = 2"
    by (simp add: constructed_def)
  from exactly_one_outcome [OF v r] v r i d show ?thesis
    by simp
qed

subsection \<open>Divergence\<close>

text \<open>
  Claim C3. In every Newton iteration (the loop condition holds and the linear solve has
  succeeded), if the squared norm of the residual is NaN, or that of the increment is
  NaN, or that of the total displacement is below \<open>EPSILON\<close>, the loop ends with this
  iteration, recorded and counted, and with \<open>diverged\<close> set. The flag \<open>converged\<close> stays
  as it was, unset, whatever the tolerances and the norms are: the two convergence
  criteria are not looked at.
\<close>

theorem divergence_checked_first:
  assumes "\<not> converged l" and "n_it l < d_newton_iterations \<sigma>"
    and "solve_increment E (world \<sigma>) = (True, w2)"
    and "update_residual E (d_newton_iterations \<sigma>) w2 (R_squared_norm l) = (w4, R)"
    and "w5 = update_U E w4"
    and "isnan E R \<or> isnan E (v_dot E dx_id dx_id w5) \<or>
         less_d E (v_dot E p_U_id p_U_id w5) (EPSILON E)"
  shows "newton_loop E \<sigma> l =
           (\<sigma>\<lparr>world := w5,
              p_times := p_times \<sigma> @
                [word_of_int (steady_clock_now E w5 - steady_clock_now E (world \<sigma>))],
              p_squared_residuals := p_squared_residuals \<sigma> @ [R],
              info := (if f_printLog \<sigma>
                       then info \<sigma> @
                         [NewtonIteration (n_it l + 1),
                          DIVERGED_nan (isnan E R) (isnan E (v_dot E dx_id dx_id w5))
                            (less_d E (v_dot E p_U_id p_U_id w5) (EPSILON E))]
                       else info \<sigma>)\<rparr>,
            l\<lparr>R_squared_norm := R, n_it := n_it l + 1, diverged := True\<rparr>)"
proof -
  have "newton_iteration E \<sigma> l =
           (\<sigma>\<lparr>world := w5,
              p_times := p_times \<sigma> @
                [word_of_int (steady_clock_now E w5 - steady_clock_now E (world \<sigma>))],
              p_squared_residuals := p_squared_residuals \<sigma> @ [R],
              info := (if f_printLog \<sigma>
                       then info \<sigma> @
                         [NewtonIteration (n_it l + 1),
                          DIVERGED_nan (isnan E R) (isnan E (v_dot E dx_id dx_id w5))
                            (less_d E (v_dot E p_U_id p_U_id w5) (EPSILON E))]
                       else info \<sigma>)\<rparr>,
            l\<lparr>R_squared_norm := R, n_it := n_it l + 1, diverged := True\<rparr>, True)"
    using assms(3-6) by (simp add: newton_iteration_def check_convergence_def Let_def)
  then show ?thesis
    using assms(1,2) by (simp add: newton_loop.simps [of E \<sigma> l])
qed

theorem divergence_checked_first_witness:
  "less_double (Finite 0) (Finite (1 / 2)) \<and>
   less_double (Finite 0)
     (times_double (times_double (Finite (1 / 2)) (Finite (1 / 2))) (Finite (1 / 2048))) \<and>
   less_double (Finite 0) (Finite 2) \<and>
   less_double (Finite 1) (times_double (times_double (Finite 2) (Finite 2)) (Finite 1)) \<and>
   less_double (Finite (1 / 2048)) (Finite (1 / 1024)) \<and>
   snd (newton_loop underflow
     (fst (first_residual underflow
        (constructed 2 (Finite (1 / 2)) (Finite 2) True CaribouLinearSolver)))
     (snd (first_residual underflow
        (constructed 2 (Finite (1 / 2)) (Finite 2) True CaribouLinearSolver)))) =
    \<lparr>n_it = 1, R_squared_norm = Finite 1, squared_residual_threshold = Finite 4,
     squared_correction_threshold = Finite (1 / 4), converged = False, diverged = True\<rparr> \<and>
   info (fst (newton_loop underflow
     (fst (first_residual underflow
        (constructed 2 (Finite (1 / 2)) (Finite 2) True CaribouLinearSolver)))
     (snd (first_residual underflow
        (constructed 2 (Finite (1 / 2)) (Finite 2) True CaribouLinearSolver))))) =
    [Starting, NewtonIteration 1, DIVERGED_nan False False True]"
proof -
  let ?s = "constructed 2 (Finite (1 / 2)) (Finite 2) True CaribouLinearSolver"
  let ?entry = "fst (first_residual underflow ?s)"
  let ?locals = "snd (first_residual underflow ?s)"
  let ?solved = "world ?entry @ [Call_clear_A, Call_assemble_system_matrix, Call_linear_solve]"
  let ?updated = "?solved @ [Call_propagate_position_increment, Call_clear_F, Call_assemble_rhs_vector]"
  have 1: "\<not> converged ?locals"
    by code_simp
  have 2: "n_it ?locals < d_newton_iterations ?entry"
    by code_simp
  have 3: "solve_increment underflow (world ?entry) = (True, ?solved)"
    by code_simp
  have 4: "update_residual underflow (d_newton_iterations ?entry) ?solved (R_squared_norm ?locals) =
      (?updated, Finite 1)"
    by code_simp
  have 5: "isnan underflow (Finite 1) \<or>
      isnan underflow (v_dot underflow dx_id dx_id (update_U underflow ?updated)) \<or>
      less_d underflow (v_dot underflow p_U_id p_U_id (update_U underflow ?updated)) (EPSILON underflow)"
    by code_simp
  have 6: "l0\<lparr>R_squared_norm := Finite 1, n_it := n_it l0 + 1, diverged := True\<rparr> =
      \<lparr>n_it = 1, R_squared_norm = Finite 1, squared_residual_threshold = Finite 4,
       squared_correction_threshold = Finite (1 / 4), converged = False, diverged = True\<rparr>"
    if "l0 = ?locals" for l0
    unfolding that by code_simp
  have 7: "f_printLog ?entry" "info ?entry = [Starting]" "n_it ?locals = 0"
    "isnan underflow (Finite 1) = False"
    "isnan underflow (v_dot underflow dx_id dx_id (update_U underflow ?updated)) = False"
    "less_d underflow (v_dot underflow p_U_id p_U_id (update_U underflow ?updated)) (EPSILON underflow) = True"
    by code_simp+
  from divergence_checked_first [OF 1 2 3 4 refl 5] 6 [OF refl] 7 show ?thesis
    by simp
qed

text \<open>
  Claim C4. In every iteration in which the linear solver returns false, the loop ends at
  once with \<open>diverged\<close> set: the world is the one the linear solver left after the
  assembly of the matrix (nothing is propagated, \<open>U\<close> is not touched), the iteration is
  not counted and the two histories get no entry. When this happens in the first
  iteration of a call of \<open>solve\<close>, the call ends diverged and not converged, with no
  completed iteration, empty histories, and the world of that first assembly and solve.
\<close>

theorem linear_solve_failure:
  assumes "\<not> converged l" and "n_it l < d_newton_iterations \<sigma>"
    and "solve_increment E (world \<sigma>) = (False, w2)"
  shows "newton_iteration E \<sigma> l = (\<sigma>\<lparr>world := w2\<rparr>, l\<lparr>diverged := True\<rparr>, True) \<and>
         newton_loop E \<sigma> l = (\<sigma>\<lparr>world := w2\<rparr>, l\<lparr>diverged := True\<rparr>) \<and>
         (has_valid_linear_solver \<sigma>i \<and> first_residual E \<sigma>i = (\<sigma>, l) \<longrightarrow>
            diverged (snd (newton_raphson E \<sigma>i)) \<and>
            \<not> d_converged (solve E \<sigma>i) \<and>
            timer_nb_iterations (solve E \<sigma>i) = 0 \<and>
            p_squared_residuals (solve E \<sigma>i) = [] \<and>
            p_times (solve E \<sigma>i) = [] \<and>
            world (solve E \<sigma>i) = w2)"
proof -
  have it: "newton_iteration E \<sigma> l = (\<sigma>\<lparr>world := w2\<rparr>, l\<lparr>diverged := True\<rparr>, True)"
    using assms(3) by (simp add: newton_iteration_def)
  then have lp: "newton_loop E \<sigma> l = (\<sigma>\<lparr>world := w2\<rparr>, l\<lparr>diverged := True\<rparr>)"
    using assms(1,2) by (simp add: newton_loop.simps [of E \<sigma> l])
  have "diverged (snd (newton_raphson E \<sigma>i)) \<and>
        \<not> d_converged (solve E \<sigma>i) \<and>
        timer_nb_iterations (solve E \<sigma>i) = 0 \<and>
        p_squared_residuals (solve E \<sigma>i) = [] \<and>
        p_times (solve E \<sigma>i) = [] \<and>
        world (solve E \<sigma>i) = w2"
    if v: "has_valid_linear_solver \<sigma>i" and f: "first_residual E \<sigma>i = (\<sigma>, l)"
  proof -
    obtain \<sigma>' l' where e: "finish (\<sigma>\<lparr>world := w2\<rparr>) (l\<lparr>diverged := True\<rparr>) = (\<sigma>', l')"
      by (cases "finish (\<sigma>\<lparr>world := w2\<rparr>) (l\<lparr>diverged := True\<rparr>)")
    have r: "newton_raphson E \<sigma>i = (\<sigma>', l')"
      using f lp e by (simp add: newton_raphson_def)
    then have s: "solve E \<sigma>i = \<sigma>'"
      using v by (simp add: solve_def)
    show ?thesis
      using finish_fields [OF e] first_residual_entry [OF f] assms(1) by (simp add: r s)
  qed
  with it lp show ?thesis
    by blast
qed

theorem linear_solve_failure_witness:
  "has_valid_linear_solver (constructed 5 (Finite (1 / 2)) (Finite (1 / 2)) False CaribouLinearSolver) \<and>
   \<not> converged (snd (first_residual failing_solver
        (constructed 5 (Finite (1 / 2)) (Finite (1 / 2)) False CaribouLinearSolver))) \<and>
   fst (solve_increment failing_solver (world (fst (first_residual failing_solver
        (constructed 5 (Finite (1 / 2)) (Finite (1 / 2)) False CaribouLinearSolver))))) = False \<and>
   diverged (snd (newton_raphson failing_solver
        (constructed 5 (Finite (1 / 2)) (Finite (1 / 2)) False CaribouLinearSolver))) \<and>
   \<not> d_converged (solve failing_solver
        (constructed 5 (Finite (1 / 2)) (Finite (1 / 2)) False CaribouLinearSolver)) \<and>
   timer_nb_iterations (solve failing_solver
        (constructed 5 (Finite (1 / 2)) (Finite (1 / 2)) False CaribouLinearSolver)) = 0 \<and>
   p_squared_residuals (solve failing_solver
        (constructed 5 (Finite (1 / 2)) (Finite (1 / 2)) False CaribouLinearSolver)) = [] \<and>
   p_times (solve failing_solver
        (constructed 5 (Finite (1 / 2)) (Finite (1 / 2)) False CaribouLinearSolver)) = [] \<and>
   world (solve failing_solver
        (constructed 5 (Finite (1 / 2)) (Finite (1 / 2)) False CaribouLinearSolver)) =
     [Call_v_clear f_id, Call_v_realloc dx_id, Call_v_clear dx_id, Call_v_realloc p_U_id,
      Call_v_clear p_U_id, Call_create_system, Call_assemble_rhs_vector,
      Call_clear_A, Call_assemble_system_matrix, Call_linear_solve]"
proof -
  let ?s = "constructed 5 (Finite (1 / 2)) (Finite (1 / 2)) False CaribouLinearSolver"
  let ?entry = "fst (first_residual failing_solver ?s)"
  let ?locals = "snd (first_residual failing_solver ?s)"
  let ?w = "[Call_v_clear f_id, Call_v_realloc dx_id, Call_v_clear dx_id, Call_v_realloc p_U_id,
      Call_v_clear p_U_id, Call_create_system, Call_assemble_rhs_vector,
      Call_clear_A, Call_assemble_system_matrix, Call_linear_solve]"
  have v: "has_valid_linear_solver ?s"
    by (simp add: has_valid_linear_solver_def constructed_def)
  have 1: "\<not> converged ?locals"
    by code_simp
  have 2: "n_it ?locals < d_newton_iterations ?entry"
    by code_simp
  have 3: "solve_increment failing_solver (world ?entry) = (False, ?w)"
    by code_simp
  have 4: "first_residual failing_solver ?s = (?entry, ?locals)"
    by simp
  from linear_solve_failure [OF 1 2 3, of ?s] v 1 3 4 show ?thesis
    by simp
qed

subsection \<open>No valid linear solver\<close>

lemma invalid_after_error:
  "has_valid_linear_solver
     (\<sigma>\<lparr>msg_error := m, error_message_already_printed := b\<rparr>) = has_valid_linear_solver \<sigma>"
  by (simp add: has_valid_linear_solver_def)

lemma solve_invalid_step:
  assumes "\<not> has_valid_linear_solver \<sigma>"
  shows "solve E \<sigma> =
           (if error_message_already_printed \<sigma> then \<sigma>
            else \<sigma>\<lparr>msg_error := msg_error \<sigma> @ no_linear_solver_errors,
                   error_message_already_printed := True\<rparr>)"
  using assms by (simp add: solve_def)

text \<open>
  Claim C8. Without a linear solver that implements the Caribou interface (no solver
  linked, or one that fails the \<open>dynamic_cast\<close>), any number of consecutive calls of
  \<open>solve\<close> leaves the state as it was (\<open>d_converged\<close>, both histories, the squared
  initial residual, the world of the mechanical vectors, the log and the timer values),
  but for the error report: its two lines are emitted by the first of these calls, when
  the static flag is not yet set, and by none of the following ones.
\<close>

theorem solve_without_linear_solver:
  assumes "\<not> has_valid_linear_solver \<sigma>"
  shows "(solve E ^^ n) \<sigma> =
           (if n = 0 \<or> error_message_already_printed \<sigma> then \<sigma>
            else \<sigma>\<lparr>msg_error := msg_error \<sigma> @ no_linear_solver_errors,
                   error_message_already_printed := True\<rparr>)"
proof (induction n)
  case 0
  show ?case
    by simp
next
  case (Suc n)
  have step: "(solve E ^^ Suc n) \<sigma> = solve E ((solve E ^^ n) \<sigma>)"
    by simp
  show ?case
  proof (cases "n = 0 \<or> error_message_already_printed \<sigma>")
    case True
    with Suc have "(solve E ^^ n) \<sigma> = \<sigma>"
      by simp
    then show ?thesis
      unfolding step using solve_invalid_step [OF assms, of E] by simp
  next
    case False
    let ?t = "\<sigma>\<lparr>msg_error := msg_error \<sigma> @ no_linear_solver_errors,
                error_message_already_printed := True\<rparr>"
    from False Suc have "(solve E ^^ n) \<sigma> = ?t"
      by simp
    moreover have "\<not> has_valid_linear_solver ?t"
      using assms by (simp add: invalid_after_error)
    from solve_invalid_step [OF this, of E] have "solve E ?t = ?t"
      by simp
    ultimately show ?thesis
      unfolding step using False by simp
  qed
qed

theorem solve_without_linear_solver_witness:
  "\<not> has_valid_linear_solver (constructed 1 (Finite (1 / 2)) (Finite (1 / 2)) True SofaLinearSolver) \<and>
   (solve run_out ^^ 3) (constructed 1 (Finite (1 / 2)) (Finite (1 / 2)) True SofaLinearSolver) =
     (constructed 1 (Finite (1 / 2)) (Finite (1 / 2)) True SofaLinearSolver)
       \<lparr>msg_error := no_linear_solver_errors, error_message_already_printed := True\<rparr> \<and>
   (solve run_out ^^ 3) (constructed 1 (Finite (1 / 2)) (Finite (1 / 2)) True nullptr) =
     (constructed 1 (Finite (1 / 2)) (Finite (1 / 2)) True nullptr)
       \<lparr>msg_error := no_linear_solver_errors, error_message_already_printed := True\<rparr>"
proof -
  let ?s = "constructed 1 (Finite (1 / 2)) (Finite (1 / 2)) True SofaLinearSolver"
  let ?t = "constructed 1 (Finite (1 / 2)) (Finite (1 / 2)) True nullptr"
  have v: "\<not> has_valid_linear_solver ?s" and w: "\<not> has_valid_linear_solver ?t"
    by (simp_all add: has_valid_linear_solver_def constructed_def)
  have e: "\<not> error_message_already_printed ?s" "msg_error ?s = []"
    "\<not> error_message_already_printed ?t" "msg_error ?t = []"
    by (simp_all add: constructed_def)
  from solve_without_linear_solver [OF v, where E = run_out and n = 3]
    solve_without_linear_solver [OF w, where E = run_out and n = 3] v e show ?thesis
    by simp
qed

subsection \<open>A single Newton iteration configured\<close>

lemma check_convergence_world:
  assumes "check_convergence E \<sigma> l a b = (\<sigma>', l', brk)"
  shows "p_squared_initial_residual \<sigma>' = p_squared_initial_residual \<sigma> \<and>
         (world \<sigma>' = world \<sigma> \<or> world \<sigma>' = v_clear E dx_id (world \<sigma>))"
  using assms by (auto simp: check_convergence_def Let_def split: if_splits)

text \<open>
  Claim C7, amended. With \<open>newton_iterations = 1\<close>, when the first residual does not end
  the call at once and the linear solve of the iteration succeeds, exactly one iteration
  is counted and recorded; the residual is not assembled again (after the solve the world
  only sees the propagation, \<open>U += dx\<close> and, unless the loop is left by \<open>break\<close>, the
  clearing of \<open>dx\<close>), and the squared residual recorded for the iteration is the squared
  initial residual.
\<close>

theorem single_iteration_mode:
  assumes "has_valid_linear_solver \<sigma>" and "d_newton_iterations \<sigma> = 1"
    and "first_residual E \<sigma> = (\<sigma>0, l0)" and "\<not> converged l0"
    and "solve_increment E (world \<sigma>0) = (True, w2)"
  shows "timer_nb_iterations (solve E \<sigma>) = 1 \<and>
         length (p_times (solve E \<sigma>)) = 1 \<and>
         p_squared_residuals (solve E \<sigma>) = [dot_F_F E (world \<sigma>0)] \<and>
         p_squared_initial_residual (solve E \<sigma>) = dot_F_F E (world \<sigma>0) \<and>
         update_residual E (d_newton_iterations \<sigma>0) w2 (R_squared_norm l0) =
           (propagate_position_increment E w2, dot_F_F E (world \<sigma>0)) \<and>
         (world (solve E \<sigma>) = update_U E (propagate_position_increment E w2) \<or>
          world (solve E \<sigma>) = v_clear E dx_id (update_U E (propagate_position_increment E w2)))"
proof -
  let ?moved = "propagate_position_increment E w2"
  let ?R = "dot_F_F E (world \<sigma>0)"
  have entry: "d_newton_iterations \<sigma>0 = 1" "n_it l0 = 0" "p_squared_residuals \<sigma>0 = []"
    "p_times \<sigma>0 = []" "R_squared_norm l0 = ?R" "p_squared_initial_residual \<sigma>0 = ?R"
    using assms(2,3) by (auto simp: first_residual_def Let_def)
  have upd: "update_residual E (d_newton_iterations \<sigma>0) w2 (R_squared_norm l0) = (?moved, ?R)"
    using entry by (simp add: update_residual_def)
  define \<sigma>r where "\<sigma>r = \<sigma>0\<lparr>world := update_U E ?moved,
      p_times := [word_of_int (steady_clock_now E (update_U E ?moved) - steady_clock_now E (world \<sigma>0))],
      p_squared_residuals := [?R],
      info := (if f_printLog \<sigma>0 then info \<sigma>0 @ [NewtonIteration 1] else info \<sigma>0)\<rparr>"
  define lr where "lr = l0\<lparr>R_squared_norm := ?R, n_it := 1\<rparr>"
  obtain \<sigma>1 l1 brk where ck: "check_convergence E \<sigma>r lr (v_dot E dx_id dx_id (update_U E ?moved))
      (v_dot E p_U_id p_U_id (update_U E ?moved)) = (\<sigma>1, l1, brk)"
    using prod_cases3 by blast
  have it: "newton_iteration E \<sigma>0 l0 = (\<sigma>1, l1, brk)"
    using assms(5) upd ck entry by (simp add: newton_iteration_def Let_def \<sigma>r_def lr_def)
  note c = check_convergence_cases [OF ck] check_convergence_world [OF ck]
  have n1: "n_it l1 = 1" and N1: "d_newton_iterations \<sigma>1 = 1"
    using c entry by (auto simp: \<sigma>r_def lr_def)
  have "newton_loop E \<sigma>1 l1 = (\<sigma>1, l1)"
    using n1 N1 by (simp add: newton_loop.simps [of E \<sigma>1 l1])
  then have lp: "newton_loop E \<sigma>0 l0 = (\<sigma>1, l1)"
    using it assms(4) entry by (simp add: newton_loop.simps [of E \<sigma>0 l0])
  obtain \<sigma>2 l2 where e: "finish \<sigma>1 l1 = (\<sigma>2, l2)"
    by (cases "finish \<sigma>1 l1")
  have s: "solve E \<sigma> = \<sigma>2"
    using assms(1,3) lp e by (simp add: solve_def newton_raphson_def)
  have ir: "p_squared_initial_residual \<sigma>2 = p_squared_initial_residual \<sigma>1"
    using e by (auto simp: finish_def Let_def)
  show ?thesis
    using finish_fields [OF e] c n1 ir upd entry by (auto simp: s \<sigma>r_def)
qed

theorem single_iteration_mode_witness:
  "has_valid_linear_solver (constructed 1 (Finite (- 1)) (Finite (- 1)) False CaribouLinearSolver) \<and>
   d_newton_iterations (constructed 1 (Finite (- 1)) (Finite (- 1)) False CaribouLinearSolver) = 1 \<and>
   \<not> converged (snd (first_residual run_out
        (constructed 1 (Finite (- 1)) (Finite (- 1)) False CaribouLinearSolver))) \<and>
   fst (solve_increment run_out (world (fst (first_residual run_out
        (constructed 1 (Finite (- 1)) (Finite (- 1)) False CaribouLinearSolver))))) \<and>
   timer_nb_iterations (solve run_out
        (constructed 1 (Finite (- 1)) (Finite (- 1)) False CaribouLinearSolver)) = 1 \<and>
   length (p_times (solve run_out
        (constructed 1 (Finite (- 1)) (Finite (- 1)) False CaribouLinearSolver))) = 1 \<and>
   p_squared_residuals (solve run_out
        (constructed 1 (Finite (- 1)) (Finite (- 1)) False CaribouLinearSolver)) = [Finite 4] \<and>
   p_squared_initial_residual (solve run_out
        (constructed 1 (Finite (- 1)) (Finite (- 1)) False CaribouLinearSolver)) = Finite 4 \<and>
   world (solve run_out
        (constructed 1 (Finite (- 1)) (Finite (- 1)) False CaribouLinearSolver)) =
     [Call_v_clear f_id, Call_v_realloc dx_id, Call_v_clear dx_id, Call_v_realloc p_U_id,
      Call_v_clear p_U_id, Call_create_system, Call_assemble_rhs_vector,
      Call_clear_A, Call_assemble_system_matrix, Call_linear_solve,
      Call_propagate_position_increment, Call_v_peq p_U_id dx_id, Call_v_clear dx_id]"
proof -
  let ?s = "constructed 1 (Finite (- 1)) (Finite (- 1)) False CaribouLinearSolver"
  let ?entry = "fst (first_residual run_out ?s)"
  let ?locals = "snd (first_residual run_out ?s)"
  let ?w = "[Call_v_clear f_id, Call_v_realloc dx_id, Call_v_clear dx_id, Call_v_realloc p_U_id,
      Call_v_clear p_U_id, Call_create_system, Call_assemble_rhs_vector,
      Call_clear_A, Call_assemble_system_matrix, Call_linear_solve]"
  have v: "has_valid_linear_solver ?s"
    by (simp add: has_valid_linear_solver_def constructed_def)
  have n: "d_newton_iterations ?s = 1"
    by (simp add: constructed_def)
  have f: "first_residual run_out ?s = (?entry, ?locals)"
    by simp
  have c: "\<not> converged ?locals"
    by code_simp
  have i: "solve_increment run_out (world ?entry) = (True, ?w)"
    by code_simp
  have r: "dot_F_F run_out (world ?entry) = Finite 4"
    by code_simp
  have w: "world (solve run_out ?s) = ?w @
      [Call_propagate_position_increment, Call_v_peq p_U_id dx_id, Call_v_clear dx_id]"
    by code_simp
  from single_iteration_mode [OF v n f c i] v n c i r w show ?thesis
    by simp
qed

text \<open>
  Claim C7 as stated does not hold: with \<open>newton_iterations = 1\<close> and a first residual
  that does not end the call, a linear solver that fails leaves no iteration counted and
  none recorded.
\<close>

theorem single_iteration_counterexample:
  "has_valid_linear_solver (constructed 1 (Finite (- 1)) (Finite (- 1)) False CaribouLinearSolver) \<and>
   d_newton_iterations (constructed 1 (Finite (- 1)) (Finite (- 1)) False CaribouLinearSolver) = 1 \<and>
   \<not> converged (snd (first_residual failing_solver
        (constructed 1 (Finite (- 1)) (Finite (- 1)) False CaribouLinearSolver))) \<and>
   timer_nb_iterations (solve failing_solver
        (constructed 1 (Finite (- 1)) (Finite (- 1)) False CaribouLinearSolver)) = 0 \<and>
   p_squared_residuals (solve failing_solver
        (constructed 1 (Finite (- 1)) (Finite (- 1)) False CaribouLinearSolver)) = [] \<and>
   p_times (solve failing_solver
        (constructed 1 (Finite (- 1)) (Finite (- 1)) False CaribouLinearSolver)) = []"
  by code_simp

subsection \<open>The two residual tests\<close>

text \<open>
  What the test of the first residual is, and what it does when it holds: no iteration,
  empty histories, the world of the first assembly.
\<close>

lemma first_residual_short_circuit:
  assumes "has_valid_linear_solver \<sigma>" and "first_residual E \<sigma> = (\<sigma>0, l0)"
  shows "converged l0 =
           (less_d E (zero_d E) (d_residual_tolerance_threshold \<sigma>) \<and>
            less_eq_d E (dot_F_F E (world \<sigma>0)) (d_residual_tolerance_threshold \<sigma>))"
    and "converged l0 \<Longrightarrow>
           d_converged (solve E \<sigma>) \<and> timer_nb_iterations (solve E \<sigma>) = 0 \<and>
           p_squared_residuals (solve E \<sigma>) = [] \<and> p_times (solve E \<sigma>) = [] \<and>
           world (solve E \<sigma>) = world \<sigma>0"
proof -
  show "converged l0 =
           (less_d E (zero_d E) (d_residual_tolerance_threshold \<sigma>) \<and>
            less_eq_d E (dot_F_F E (world \<sigma>0)) (d_residual_tolerance_threshold \<sigma>))"
    using assms(2) by (auto simp: first_residual_def Let_def)
next
  assume c: "converged l0"
  then have lp: "newton_loop E \<sigma>0 l0 = (\<sigma>0, l0)"
    by (simp add: newton_loop.simps [of E \<sigma>0 l0])
  obtain \<sigma>' l' where e: "finish \<sigma>0 l0 = (\<sigma>', l')"
    by (cases "finish \<sigma>0 l0")
  have s: "solve E \<sigma> = \<sigma>'"
    using assms lp e by (simp add: solve_def newton_raphson_def)
  show "d_converged (solve E \<sigma>) \<and> timer_nb_iterations (solve E \<sigma>) = 0 \<and>
           p_squared_residuals (solve E \<sigma>) = [] \<and> p_times (solve E \<sigma>) = [] \<and>
           world (solve E \<sigma>) = world \<sigma>0"
    using finish_fields [OF e] first_residual_entry [OF assms(2)] c by (simp add: s)
qed

text \<open>
  Claim C1 asks for no iteration when the residual tolerance is positive and the squared
  first residual is below the squared tolerance. \<open>solve\<close> compares the squared residual
  with the tolerance itself: for a tolerance of 2 and a squared first residual of 3
  (below 4, above 2) \<open>converged\<close> is not set before the loop and one iteration is run
  and recorded.
\<close>

theorem first_residual_against_unsquared_tolerance:
  "less_double (Finite 0) (Finite 2) \<and>
   less_double (Finite 3) (times_double (Finite 2) (Finite 2)) \<and>
   p_squared_initial_residual (solve above_unit_tolerance
        (constructed 1 (Finite (- 1)) (Finite 2) False CaribouLinearSolver)) = Finite 3 \<and>
   converged (snd (first_residual above_unit_tolerance
        (constructed 1 (Finite (- 1)) (Finite 2) False CaribouLinearSolver))) = False \<and>
   timer_nb_iterations (solve above_unit_tolerance
        (constructed 1 (Finite (- 1)) (Finite 2) False CaribouLinearSolver)) = 1 \<and>
   p_squared_residuals (solve above_unit_tolerance
        (constructed 1 (Finite (- 1)) (Finite 2) False CaribouLinearSolver)) = [Finite 3] \<and>
   length (p_times (solve above_unit_tolerance
        (constructed 1 (Finite (- 1)) (Finite 2) False CaribouLinearSolver))) = 1 \<and>
   world (solve above_unit_tolerance
        (constructed 1 (Finite (- 1)) (Finite 2) False CaribouLinearSolver)) =
     [Call_v_clear f_id, Call_v_realloc dx_id, Call_v_clear dx_id, Call_v_realloc p_U_id,
      Call_v_clear p_U_id, Call_create_system, Call_assemble_rhs_vector,
      Call_clear_A, Call_assemble_system_matrix, Call_linear_solve,
      Call_propagate_position_increment, Call_v_peq p_U_id dx_id]"
  by code_simp

text \<open>
  Claim C2 takes the residual criterion relative to the squared initial residual.
  \<open>solve\<close> multiplies the squared tolerance with \<open>p_squared_residuals[0]\<close>, the residual
  recorded by the first iteration. With two iterations allowed, the correction criterion
  disabled, a residual tolerance of 1/2 and squared residuals 100 (initial), 1 and 1, the
  first iteration has 1 < 1/4 * 100 and yet the loop goes on, and the call ends after
  two iterations, not converged.
\<close>

theorem residual_ratio_against_first_recorded:
  "less_double (Finite 0) (Finite (1 / 2)) \<and>
   less_double (Finite 1)
     (times_double (times_double (Finite (1 / 2)) (Finite (1 / 2))) (Finite 100)) \<and>
   p_squared_initial_residual (solve residual_drop
        (constructed 2 (Finite (- 1)) (Finite (1 / 2)) False CaribouLinearSolver)) = Finite 100 \<and>
   p_squared_residuals (solve residual_drop
        (constructed 2 (Finite (- 1)) (Finite (1 / 2)) False CaribouLinearSolver)) =
     [Finite 1, Finite 1] \<and>
   timer_nb_iterations (solve residual_drop
        (constructed 2 (Finite (- 1)) (Finite (1 / 2)) False CaribouLinearSolver)) = 2 \<and>
   d_converged (solve residual_drop
        (constructed 2 (Finite (- 1)) (Finite (1 / 2)) False CaribouLinearSolver)) = False"
  by code_simp

section \<open>Properties of the rectangular hexahedron\<close>

lemma real_times_mv_assoc:
  "real_times_mv (real_times_mm A B) x = real_times_mv A (real_times_mv B x)"
  by (cases A rule: prod_cases3; cases B rule: prod_cases3; cases x rule: prod_cases3)
     (auto simp: algebra_simps split: prod.splits)

lemma real_times_mv_Identity33: "real_times_mv Identity33 x = x"
  by (cases x rule: prod_cases3) (simp add: Identity33_def)

lemma vals33_transpose33: "vals33 val (transpose33 R) = transpose33 (vals33 val R)"
  by (cases R rule: prod_cases3; cases "fst R" rule: prod_cases3;
      cases "fst (snd R)" rule: prod_cases3; cases "snd (snd R)" rule: prod_cases3) simp

lemma scale_back:
  assumes "H = (hx, hy, hz)" and "hx \<noteq> 0" and "hy \<noteq> 0" and "hz \<noteq> 0"
  shows "real_array_divide
           (real_minus (real_plus c (real_array_times a (real_divide_scalar H 2))) c)
           (real_divide_scalar H 2) = a"
  using assms by (cases a rule: prod_cases3; cases c rule: prod_cases3) simp

lemma vals_inj:
  assumes "inj val" and "vals val a = vals val b"
  shows "a = b"
  using assms by (cases a rule: prod_cases3; cases b rule: prod_cases3) (simp add: inj_eq)

text \<open>
  Claim C9, amended. For every rectangular hexahedron whose rotation matrix is orthogonal
  (\<open>R\<^sup>T R = I\<close>) and whose dimensions \<open>hx\<close>, \<open>hy\<close>, \<open>hz\<close> are all nonzero, and for every local
  coordinate vector \<open>x\<close> at which no operation of \<open>T\<close> and of \<open>Tinv\<close> rounds, \<open>Tinv (T x)\<close>
  and \<open>x\<close> are the same numbers, and the same scalars when no two scalars stand for the
  same number.
\<close>

theorem Tinv_T_without_rounding:
  assumes "real_times_mm (transpose33 (vals33 val (p_R h))) (vals33 val (p_R h)) = Identity33"
    and "vals val (p_H h) = (hx, hy, hz)" and "hx \<noteq> 0" and "hy \<noteq> 0" and "hz \<noteq> 0"
    and "T_exact val E h x" and "Tinv_exact val E h (T E h x)"
  shows "vals val (Tinv E h (T E h x)) = vals val x \<and>
         (inj val \<longrightarrow> Tinv E h (T E h x) = x)"
proof -
  let ?R = "vals33 val (p_R h)"
  let ?half = "real_divide_scalar (vals val (p_H h)) 2"
  let ?c = "vals val (p_center h)"
  let ?rot = "real_times_mv ?R (vals val x)"
  have t: "vals val (T E h x) = real_plus ?c (real_array_times ?rot ?half)"
    using assms(6) by (simp add: T_exact_def T_def Let_def)
  have "vals val (Tinv E h (T E h x)) =
      real_times_mv (transpose33 ?R)
        (real_array_divide (real_minus (vals val (T E h x)) ?c) ?half)"
    using assms(7) by (simp add: Tinv_exact_def Tinv_def Let_def vals33_transpose33)
  also have "\<dots> = real_times_mv (transpose33 ?R) ?rot"
    using scale_back [OF assms(2-5)] by (simp only: t)
  also have "\<dots> = real_times_mv (real_times_mm (transpose33 ?R) ?R) (vals val x)"
    by (simp only: real_times_mv_assoc)
  also have "\<dots> = vals val x"
    by (simp only: assms(1) real_times_mv_Identity33)
  finally have v: "vals val (Tinv E h (T E h x)) = vals val x" .
  then show ?thesis
    using vals_inj by blast
qed

theorem Tinv_T_without_rounding_witness:
  "real_times_mm (transpose33 (vals33 id (p_R quarter_turn))) (vals33 id (p_R quarter_turn)) =
     Identity33 \<and>
   vals id (p_H quarter_turn) = (2, 4, 8) \<and>
   T_exact id binary64 quarter_turn (1, 1 / 2, - 1) \<and>
   Tinv_exact id binary64 quarter_turn (T binary64 quarter_turn (1, 1 / 2, - 1)) \<and>
   T binary64 quarter_turn (1, 1 / 2, - 1) = (1 / 2, 4, - 1) \<and>
   Tinv binary64 quarter_turn (1 / 2, 4, - 1) = (1, 1 / 2, - 1)"
proof -
  have o: "real_times_mm (transpose33 (vals33 id (p_R quarter_turn)))
      (vals33 id (p_R quarter_turn)) = Identity33"
    by (simp add: quarter_turn_def Identity33_def)
  have s: "vals id (p_H quarter_turn) = (2, 4, 8)"
    by (simp add: quarter_turn_def)
  have t: "T binary64 quarter_turn (1, 1 / 2, - 1) = (1 / 2, 4, - 1)"
    by code_simp
  have e: "T_exact id binary64 quarter_turn (1, 1 / 2, - 1)"
    by code_simp
  have f: "Tinv_exact id binary64 quarter_turn (T binary64 quarter_turn (1, 1 / 2, - 1))"
    by code_simp
  from Tinv_T_without_rounding [OF o s _ _ _ e f] o s t e f show ?thesis
    by simp
qed

text \<open>
  Claim C9 as stated does not hold: on the cube of side 2 centred at (1, 0, 0), not
  rotated, \<open>T\<close> sends \<open>(1 / 2 ^ 60, 0, 0)\<close> to \<open>(1, 0, 0)\<close>, the sum \<open>1 + 1 / 2 ^ 60\<close> being rounded to 1, and
  \<open>Tinv\<close> sends that to \<open>(0, 0, 0)\<close>, in binary64 as in binary32.
\<close>

theorem Tinv_T_rounding_counterexample:
  "real_times_mm (transpose33 (p_R shifted_cube)) (p_R shifted_cube) = Identity33 \<and>
   p_H shifted_cube = (2, 2, 2) \<and>
   T binary64 shifted_cube (1 / 2 ^ 60, 0, 0) = (1, 0, 0) \<and>
   Tinv binary64 shifted_cube (T binary64 shifted_cube (1 / 2 ^ 60, 0, 0)) = (0, 0, 0) \<and>
   Tinv binary32 shifted_cube (T binary32 shifted_cube (1 / 2 ^ 60, 0, 0)) = (0, 0, 0) \<and>
   (1 / 2 ^ 60, 0, 0) \<noteq> (0 :: real, 0 :: real, 0 :: real)"
  by code_simp

section \<open>Properties of the grid\<close>

lemma get_const_returns_nothing: "get_const cell_index g grid_coordinates \<noteq> Some r"
proof
  assume returns: "get_const cell_index g grid_coordinates = Some r"
  show False
    by (rule get_const.raw_induct [where P = "\<lambda>_ _ _ _. False", OF _ returns]) blast
qed

text \<open>
  Claim C10 asks the const overload of \<open>Grid::get\<close> to terminate and to return the cell
  at \<open>cell_index(grid_coordinates)\<close>, as the non-const overload does. On the grid of one
  cell, at the coordinates (0, 0, 0), the non-const overload returns the cell and the
  const overload does not return.
\<close>

theorem const_get_does_not_return:
  "get one_cell_index one_cell [0, 0, 0] = Inr 7 \<and>
   get_const one_cell_index one_cell [0, 0, 0] = None"
proof -
  have "get_const one_cell_index one_cell [0, 0, 0] = None"
    using get_const_returns_nothing [of one_cell_index one_cell "[0, 0, 0]"]
    by (cases "get_const one_cell_index one_cell [0, 0, 0]") auto
  then show ?thesis
    by (simp add: get_def one_cell_index_def one_cell_def)
qed

end
